theory Spec2Isabelle
  imports Main
begin

section \<open>Data model\<close>

text \<open>
  The account backend keeps user rows in a relational table and answers HTTP requests
  through view methods. Each view method is embedded as a function from the state of
  the world before the request to an outcome and the state after it.

  A row of the user table. The password column holds the encoded hash, never the raw
  password. The two OTP columns are nullable (migration 0003). Timestamps are counted
  in microseconds, the resolution of Python's datetime.
\<close>

record user =
  uid :: int
  email :: string
  full_name :: string
  password :: string
  is_verified :: bool
  is_active :: bool
  otp :: "string option"
  otp_created_at :: "int option"

text \<open>JSON values, as far as the response bodies of the views need them.\<close>

datatype json = JNull | JBool bool | JStr string | JList "json list"
  | JDict "(string \<times> json) list"

text \<open>\<open>Response(data, status=...)\<close>\<close>

datatype response = Response json nat

text \<open>
  The exceptions that the views and serializers raise or meet. \<open>AuthenticationFailed\<close>
  and \<open>ValidationError\<close> are API exceptions of the REST framework: its exception
  handler turns them into an error response. Every other exception that leaves a view
  method is an unhandled fault of the server.
\<close>

datatype exn =
    ValueError
  | TypeError
  | AttributeError
  | DjangoUnicodeDecodeError
  | DoesNotExist
  | MultipleObjectsReturned
  | TokenError
  | AssertionError
  | IntegrityError
  | SMTPException
  | AuthenticationFailed string
  | ValidationError json

fun is_api_exception :: "exn \<Rightarrow> bool" where
  "is_api_exception (AuthenticationFailed m) = True"
| "is_api_exception (ValidationError d) = True"
| "is_api_exception e = False"

text \<open>An outgoing e-mail: subject, body, sender, recipients.\<close>

record mail =
  subject :: string
  body :: string
  from_email :: string
  recipients :: "string list"

text \<open>
  The state of the world outside a request: the user table, the identifiers of the
  blacklisted refresh tokens, the mails handed over to the mail server, and the lines
  written to the logger.
\<close>

record state =
  users :: "user list"
  blacklisted :: "string list"
  outbox :: "mail list"
  logged :: "string list"

text \<open>
  What a view method does with a request: either an exception leaves the method
  (\<open>Inl\<close>) or it returns a response (\<open>Inr\<close>); in both cases the state is the one
  the method leaves behind.
\<close>

type_synonym outcome = "(exn + response) \<times> state"

section \<open>The object manager of the user table\<close>

text \<open>
  \<open>User.objects.get(...)\<close>: the single row that satisfies the lookup; \<open>DoesNotExist\<close>
  when there is none, \<open>MultipleObjectsReturned\<close> when there are several.
\<close>

definition objects_get :: "(user \<Rightarrow> bool) \<Rightarrow> user list \<Rightarrow> exn + user" where
  "objects_get p rows =
     (case filter p rows of
        [] \<Rightarrow> Inl DoesNotExist
      | [u] \<Rightarrow> Inr u
      | _ \<Rightarrow> Inl MultipleObjectsReturned)"

text \<open>\<open>User.objects.filter(...).exists()\<close>\<close>

definition objects_exists :: "(user \<Rightarrow> bool) \<Rightarrow> user list \<Rightarrow> bool" where
  "objects_exists p rows = (filter p rows \<noteq> [])"

text \<open>
  \<open>user.save()\<close>: the row with the primary key of the instance is overwritten with the
  fields of the instance; an instance whose key is not in the table is inserted.
\<close>

definition save :: "user \<Rightarrow> user list \<Rightarrow> user list" where
  "save u rows =
     (if uid u \<in> set (map uid rows)
      then map (\<lambda>r. if uid r = uid u then u else r) rows
      else rows @ [u])"

section \<open>OTP verification\<close>

text \<open>\<open>timedelta(minutes=m)\<close> and \<open>timedelta(seconds=n)\<close>, in microseconds.\<close>

definition timedelta_minutes :: "int \<Rightarrow> int" where
  "timedelta_minutes m = m * 60000000"

definition timedelta_seconds :: "int \<Rightarrow> int" where
  "timedelta_seconds n = n * 1000000"

text \<open>
  Python's \<open>not v\<close> for the value of \<open>request.data.get(key)\<close>: true for \<open>None\<close> and
  for the empty string.
\<close>

fun py_not :: "string option \<Rightarrow> bool" where
  "py_not None = True"
| "py_not (Some v) = (v = [])"

definition otp_required_response :: response where
  "otp_required_response =
     Response (JDict [(''error'', JStr ''OTP and email are required.'')]) 400"

definition otp_verified_response :: response where
  "otp_verified_response =
     Response (JDict [(''message'', JStr ''Email successfully verified'')]) 200"

definition otp_invalid_response :: response where
  "otp_invalid_response =
     Response (JDict [(''error'', JStr ''Invalid or expired OTP.'')]) 400"

definition user_missing_response :: response where
  "user_missing_response =
     Response (JDict [(''error'', JStr ''User does not exist.'')]) 400"

text \<open>
  \<open>VerifyEmail.post\<close>. The request data is a dictionary; \<open>now\<close> is the value of
  \<open>timezone.now()\<close>. The conjunction of the source is evaluated left to right: the
  subtraction is reached only when the codes are equal, and it raises \<open>TypeError\<close> on a
  null \<open>otp_created_at\<close>. Only \<open>User.DoesNotExist\<close> is caught.
\<close>

definition VerifyEmail_post :: "int \<Rightarrow> state \<Rightarrow> (string \<rightharpoonup> string) \<Rightarrow> outcome" where
  "VerifyEmail_post now s data =
     (let otp_to_verify = data ''otp''; email_arg = data ''email'' in
      if py_not otp_to_verify \<or> py_not email_arg
      then (Inr otp_required_response, s)
      else
        (case (otp_to_verify, email_arg) of
           (Some code, Some em) \<Rightarrow>
             (case objects_get (\<lambda>u. email u = em) (users s) of
                Inr u \<Rightarrow>
                  if otp u = Some code
                  then
                    (case otp_created_at u of
                       None \<Rightarrow> (Inl TypeError, s)
                     | Some created \<Rightarrow>
                         if now - created \<le> timedelta_minutes 15
                         then (Inr otp_verified_response,
                               s\<lparr>users := save (u\<lparr>is_verified := True\<rparr>) (users s)\<rparr>)
                         else (Inr otp_invalid_response, s))
                  else (Inr otp_invalid_response, s)
              | Inl DoesNotExist \<Rightarrow>
                  (Inr user_missing_response,
                   s\<lparr>logged := logged s @ [''User with email '' @ em @ '' does not exist.'']\<rparr>)
              | Inl e \<Rightarrow> (Inl e, s))
         | _ \<Rightarrow> (Inr otp_required_response, s)))"

section \<open>Library functions taken as parameters\<close>

text \<open>
  The views call into Django, the REST framework and the JWT library, and into the
  user model of the application. Their pure functions are parameters of the embedding:

  \<^item> \<open>urlsafe_base64_decode\<close>: the decoded bytes, or \<open>None\<close> where Django raises
    \<open>ValueError\<close>;
  \<^item> \<open>decode_utf8\<close>: \<open>smart_str\<close> and \<open>force_str\<close> on bytes, \<open>None\<close> where they raise
    \<open>DjangoUnicodeDecodeError\<close>;
  \<^item> \<open>to_python_int\<close>: the conversion of a lookup value for the integer primary key,
    \<open>None\<close> where it raises \<open>ValueError\<close>;
  \<^item> \<open>make_token\<close>, \<open>check_token\<close>: \<open>PasswordResetTokenGenerator\<close>;
  \<^item> \<open>make_password\<close>, \<open>check_password\<close>: the password hasher, the second applied to a
    raw password and an encoded hash;
  \<^item> \<open>decode_refresh\<close>: decoding and verifying a refresh token (signature, expiry,
    token type), giving its \<open>jti\<close> claim, \<open>None\<close> where it raises \<open>TokenError\<close>;
  \<^item> \<open>user_tokens\<close>, \<open>user_full_name\<close>: the method and the property of the user model;
  \<^item> \<open>deliver\<close>: whether the mail server accepts a message;
  \<^item> \<open>strip\<close>: Python's \<open>str.strip\<close>;
  \<^item> \<open>email_valid\<close>: whether Django's \<open>EmailValidator\<close> accepts an address;
  \<^item> \<open>column_clean\<close>: the checks that a model serializer derives from the
    declaration of a column of the user model, the uniqueness of the column apart,
    applied to a value that the request supplies for the column of that name: the
    error detail where the value is refused before the validators run (a blank
    value), or else the cleaned value and the messages of the validators that fail;
  \<^item> \<open>unique_message\<close>: the message that the user model gives for a taken email.
\<close>

record env =
  urlsafe_base64_decode :: "string \<Rightarrow> string option"
  decode_utf8 :: "string \<Rightarrow> string option"
  to_python_int :: "string \<Rightarrow> int option"
  make_token :: "user \<Rightarrow> string"
  check_token :: "user \<Rightarrow> string \<Rightarrow> bool"
  make_password :: "string \<Rightarrow> string"
  check_password :: "string \<Rightarrow> string \<Rightarrow> bool"
  decode_refresh :: "string \<Rightarrow> string option"
  user_tokens :: "user \<Rightarrow> (string \<rightharpoonup> string)"
  user_full_name :: "user \<Rightarrow> string"
  deliver :: "mail \<Rightarrow> bool"
  strip :: "string \<Rightarrow> string"
  email_valid :: "string \<Rightarrow> bool"
  column_clean :: "string \<Rightarrow> string \<Rightarrow> json + (string \<times> json list)"
  unique_message :: string

text \<open>\<open>User.objects.get(id=user_id)\<close> with a string as the lookup value.\<close>

definition objects_get_id :: "env \<Rightarrow> string \<Rightarrow> user list \<Rightarrow> exn + user" where
  "objects_get_id E user_id rows =
     (case to_python_int E user_id of
        None \<Rightarrow> Inl ValueError
      | Some i \<Rightarrow> objects_get (\<lambda>u. uid u = i) rows)"

section \<open>Serializer validation\<close>

text \<open>\<open>ValidationError(message)\<close>: the detail is the list of the one message.\<close>

definition validation_error :: "string \<Rightarrow> exn" where
  "validation_error m = ValidationError (JList [JStr m])"

text \<open>
  \<open>as_serializer_error\<close>: the detail of a validation error raised by \<open>validate\<close> is
  filed under \<open>non_field_errors\<close> unless it is a dictionary already.
\<close>

fun as_serializer_error :: "json \<Rightarrow> json" where
  "as_serializer_error (JDict kv) = JDict kv"
| "as_serializer_error (JList xs) = JDict [(''non_field_errors'', JList xs)]"
| "as_serializer_error d = JDict [(''non_field_errors'', JList [d])]"

text \<open>
  \<open>serializer.is_valid(raise_exception=True)\<close>, applied to the result of the
  serializer's \<open>validate\<close>, which runs on the attributes that have passed the checks
  of the fields. A validation error is raised again with the serializer's error
  dictionary; any other exception passes through; a returned value is the validated data.
\<close>

fun is_valid_raise :: "exn + 'a \<Rightarrow> exn + 'a" where
  "is_valid_raise (Inl (ValidationError d)) = Inl (ValidationError (as_serializer_error d))"
| "is_valid_raise (Inl e) = Inl e"
| "is_valid_raise (Inr v) = Inr v"

section \<open>The checks of the fields\<close>

text \<open>
  Before \<open>validate\<close> runs, \<open>is_valid\<close> passes the request data through the fields of
  the serializer. The request data is a dictionary of strings. Each field either
  raises a validation error or gives the validated value; the errors of all fields are
  gathered, in the order of the fields, into the dictionary of one validation error.
\<close>

fun field_errors :: "string \<Rightarrow> exn + 'a \<Rightarrow> (string \<times> json) list" where
  "field_errors name (Inl (ValidationError d)) = [(name, d)]"
| "field_errors name r = []"

text \<open>A number in decimal digits, as the messages of the length validators print it.\<close>

fun string_of_nat :: "nat \<Rightarrow> string" where
  "string_of_nat n =
     (if n < 10 then [''0123456789'' ! n]
      else string_of_nat (n div 10) @ [''0123456789'' ! (n mod 10)])"

text \<open>
  \<open>CharField(max_length=..., min_length=...)\<close> and, with \<open>is_email\<close>, \<open>EmailField\<close>, both
  required, not blank and trimming whitespace, as they are by default. A missing value
  and a blank one are refused at once. Otherwise the value is trimmed and every
  validator runs on it: maximal length, minimal length, no null character, and for an
  email field the format of the address; the messages of those that fail are raised
  together.
\<close>

definition CharField_run_validation ::
  "env \<Rightarrow> nat option \<Rightarrow> nat option \<Rightarrow> bool \<Rightarrow> string option \<Rightarrow> exn + string" where
  "CharField_run_validation E max_length min_length is_email data =
     (case data of
        None \<Rightarrow> Inl (validation_error ''This field is required.'')
      | Some raw \<Rightarrow>
          if raw = [] \<or> strip E raw = []
          then Inl (validation_error ''This field may not be blank.'')
          else
            (let v = strip E raw;
                 errors =
                   (case max_length of
                      None \<Rightarrow> []
                    | Some n \<Rightarrow>
                        if n < length v
                        then [JStr (''Ensure this field has no more than '' @ string_of_nat n @
                                    '' characters.'')]
                        else []) @
                   (case min_length of
                      None \<Rightarrow> []
                    | Some n \<Rightarrow>
                        if length v < n
                        then [JStr (''Ensure this field has at least '' @ string_of_nat n @
                                    '' characters.'')]
                        else []) @
                   (if CHR 0x00 \<in> set v then [JStr ''Null characters are not allowed.''] else []) @
                   (if is_email \<and> \<not> email_valid E v
                    then [JStr ''Enter a valid email address.''] else [])
             in if errors = [] then Inr v else Inl (ValidationError (JList errors))))"

text \<open>
  The uniqueness validator of the email field: some row has the value as its email,
  the row of the instance that the serializer updates not counted.
\<close>

definition unique_validator_hits :: "user option \<Rightarrow> user list \<Rightarrow> string \<Rightarrow> bool" where
  "unique_validator_hits instance rows v =
     objects_exists
       (\<lambda>u. email u = v \<and> (case instance of None \<Rightarrow> True | Some i \<Rightarrow> uid u \<noteq> uid i))
       rows"

text \<open>
  Modelled from the spec: the fields \<open>full_name\<close> and \<open>email\<close> of the model serializers
  are derived from the columns of the user model, which is not among the sources. Both
  are required where the serializer is not partial. The email of a user is unique, so
  the email field carries the uniqueness validator; it stands before the validators
  that the field adds for the declaration of the column, and its message comes first.
\<close>

definition model_field_run_validation ::
  "env \<Rightarrow> user option \<Rightarrow> user list \<Rightarrow> string \<Rightarrow> string option \<Rightarrow> exn + string" where
  "model_field_run_validation E instance rows name data =
     (case data of
        None \<Rightarrow> Inl (validation_error ''This field is required.'')
      | Some raw \<Rightarrow>
          (case column_clean E name raw of
             Inl detail \<Rightarrow> Inl (ValidationError detail)
           | Inr (v, messages) \<Rightarrow>
               (let errors =
                      (if name = ''email'' \<and> unique_validator_hits instance rows v
                       then [JStr (unique_message E)] else []) @ messages
                in if errors = [] then Inr v else Inl (ValidationError (JList errors)))))"

section \<open>Password reset\<close>

definition token_expired_response :: response where
  "token_expired_response = Response (JDict [(''message'', JStr ''Token is expired'')]) 401"

definition token_has_expired_response :: response where
  "token_has_expired_response = Response (JDict [(''message'', JStr ''token has expired'')]) 401"

definition credentials_valid_response :: "string \<Rightarrow> string \<Rightarrow> response" where
  "credentials_valid_response uidb64 token =
     Response (JDict [(''success'', JBool True),
                      (''message'', JStr ''The credentials are valid''),
                      (''uidb64'', JStr uidb64),
                      (''token'', JStr token)]) 200"

text \<open>
  \<open>ConfirmPasswordResetView.get\<close>. The \<open>except\<close> clause names
  \<open>DjangoUnicodeDecodeError\<close> only: the \<open>ValueError\<close> of the base64 decoder and of the
  primary key conversion, and the \<open>DoesNotExist\<close> of the lookup, leave the method.
\<close>

definition ConfirmPasswordResetView_get :: "env \<Rightarrow> state \<Rightarrow> string \<Rightarrow> string \<Rightarrow> outcome" where
  "ConfirmPasswordResetView_get E s uidb64 token =
     (case urlsafe_base64_decode E uidb64 of
        None \<Rightarrow> (Inl ValueError, s)
      | Some raw \<Rightarrow>
          (case decode_utf8 E raw of
             None \<Rightarrow> (Inr token_has_expired_response, s)
           | Some user_id \<Rightarrow>
               (case objects_get_id E user_id (users s) of
                  Inl e \<Rightarrow> (Inl e, s)
                | Inr u \<Rightarrow>
                    if \<not> check_token E u token
                    then (Inr token_expired_response, s)
                    else (Inr (credentials_valid_response uidb64 token), s))))"

text \<open>The validated attributes of \<open>NewPasswordSerializer\<close>.\<close>

record new_password_attrs =
  np_password :: string
  np_password_confirm :: string
  np_uidb64 :: string
  np_token :: string

text \<open>
  The body of the \<open>try\<close> block of \<open>NewPasswordSerializer.validate\<close>: \<open>Inl\<close> is the
  exception raised inside the block, \<open>Inr\<close> the user it returns. \<open>set_password\<close>
  stores the hash of the raw password in the instance, \<open>save\<close> writes the row.
\<close>

definition NewPasswordSerializer_try ::
  "env \<Rightarrow> state \<Rightarrow> new_password_attrs \<Rightarrow> (exn + user) \<times> state" where
  "NewPasswordSerializer_try E s attrs =
     (case urlsafe_base64_decode E (np_uidb64 attrs) of
        None \<Rightarrow> (Inl ValueError, s)
      | Some raw \<Rightarrow>
          (case decode_utf8 E raw of
             None \<Rightarrow> (Inl DjangoUnicodeDecodeError, s)
           | Some user_id \<Rightarrow>
               (case objects_get_id E user_id (users s) of
                  Inl e \<Rightarrow> (Inl e, s)
                | Inr u \<Rightarrow>
                    if \<not> check_token E u (np_token attrs)
                    then (Inl (AuthenticationFailed ''The link is invalid''), s)
                    else if np_password attrs \<noteq> np_password_confirm attrs
                    then (Inl (AuthenticationFailed ''Password Fields didn't match!''), s)
                    else
                      (let u' = u\<lparr>password := make_password E (np_password attrs)\<rparr>
                       in (Inr u', s\<lparr>users := save u' (users s)\<rparr>)))))"

text \<open>
  What \<open>NewPasswordSerializer.validate\<close> returns: the user, or, from the \<open>except\<close>
  clause, an exception object. The clause catches every exception of the block and
  hands the new \<open>AuthenticationFailed\<close> back with \<open>return\<close>; nothing is raised.
\<close>

datatype validated = ReturnedUser user | ReturnedException exn

definition NewPasswordSerializer_validate ::
  "env \<Rightarrow> state \<Rightarrow> new_password_attrs \<Rightarrow> (exn + validated) \<times> state" where
  "NewPasswordSerializer_validate E s attrs =
     (case NewPasswordSerializer_try E s attrs of
        (Inr u, s') \<Rightarrow> (Inr (ReturnedUser u), s')
      | (Inl e, s') \<Rightarrow>
          (Inr (ReturnedException (AuthenticationFailed ''The link is invalid/expired'')), s'))"

definition password_reset_response :: response where
  "password_reset_response =
     Response (JDict [(''message'', JStr ''Your Password Reset Successfully'')]) 200"

text \<open>
  \<open>NewPasswordView.patch\<close>: the response is built as soon as \<open>is_valid\<close> has not
  raised; the validated data is not looked at.
\<close>

definition NewPasswordView_patch :: "env \<Rightarrow> state \<Rightarrow> new_password_attrs \<Rightarrow> outcome" where
  "NewPasswordView_patch E s attrs =
     (case NewPasswordSerializer_validate E s attrs of
        (r, s') \<Rightarrow>
          (case is_valid_raise r of
             Inl e \<Rightarrow> (Inl e, s')
           | Inr v \<Rightarrow> (Inr password_reset_response, s')))"

section \<open>Logout\<close>

text \<open>
  \<open>RefreshToken(token)\<close> with the blacklist application: the token is decoded and
  verified, and a token whose \<open>jti\<close> is blacklisted is refused; each failure is a
  \<open>TokenError\<close>. The result is the \<open>jti\<close> of the token.
\<close>

definition RefreshToken_init :: "env \<Rightarrow> state \<Rightarrow> string \<Rightarrow> exn + string" where
  "RefreshToken_init E s tok =
     (case decode_refresh E tok of
        None \<Rightarrow> Inl TokenError
      | Some jti \<Rightarrow> if jti \<in> set (blacklisted s) then Inl TokenError else Inr jti)"

text \<open>\<open>token.blacklist()\<close>: get or create the blacklist entry of the \<open>jti\<close>.\<close>

definition blacklist :: "string \<Rightarrow> state \<Rightarrow> state" where
  "blacklist jti s =
     (if jti \<in> set (blacklisted s) then s else s\<lparr>blacklisted := blacklisted s @ [jti]\<rparr>)"

definition default_error_messages :: "(string \<times> string) list" where
  "default_error_messages = [(''bad_token'', ''Token expired'')]"

text \<open>
  \<open>self.fail(key)\<close> never returns: it raises the validation error with the message
  registered under the key, or an assertion error for an unknown key.
\<close>

definition fail :: "string \<Rightarrow> exn" where
  "fail key =
     (case map_of default_error_messages key of
        None \<Rightarrow> AssertionError
      | Some msg \<Rightarrow> validation_error msg)"

text \<open>
  \<open>LogoutSerializer.save\<close>, on the token that \<open>validate\<close> has stored. The \<open>return\<close>
  in front of \<open>self.fail\<close> is never reached, since \<open>fail\<close> raises.
\<close>

definition LogoutSerializer_save :: "env \<Rightarrow> state \<Rightarrow> string \<Rightarrow> (exn + unit) \<times> state" where
  "LogoutSerializer_save E s tok =
     (case RefreshToken_init E s tok of
        Inr jti \<Rightarrow> (Inr (), blacklist jti s)
      | Inl TokenError \<Rightarrow> (Inl (fail ''bad_token''), s)
      | Inl e \<Rightarrow> (Inl e, s))"

definition logout_response :: response where
  "logout_response = Response JNull 200"

text \<open>\<open>LogoutView.post\<close>; \<open>LogoutSerializer.validate\<close> accepts every token string.\<close>

definition LogoutView_post :: "env \<Rightarrow> state \<Rightarrow> string \<Rightarrow> outcome" where
  "LogoutView_post E s refresh_token =
     (case LogoutSerializer_save E s refresh_token of
        (Inl e, s') \<Rightarrow> (Inl e, s')
      | (Inr _, s') \<Rightarrow> (Inr logout_response, s'))"

section \<open>Login\<close>


record login_attrs =
  login_email :: string
  login_password :: string




text \<open>
  The writable fields of \<open>LoginSerializer\<close>, as declared:
  \<open>email = EmailField(max_length=255, min_length=10)\<close> and
  \<open>password = CharField(max_length=40, min_length=4)\<close>. A field declared on the
  serializer takes nothing from the column of the model, so this email field has no
  uniqueness validator.
\<close>

definition LoginSerializer_to_internal_value ::
  "env \<Rightarrow> (string \<rightharpoonup> string) \<Rightarrow> exn + login_attrs" where
  "LoginSerializer_to_internal_value E data =
     (let r_email = CharField_run_validation E (Some 255) (Some 10) True (data ''email'');
          r_password = CharField_run_validation E (Some 40) (Some 4) False (data ''password'')
      in case (r_email, r_password) of
           (Inr em, Inr pw) \<Rightarrow> Inr \<lparr>login_email = em, login_password = pw\<rparr>
         | _ \<Rightarrow>
             Inl (ValidationError
                    (JDict (field_errors ''email'' r_email @ field_errors ''password'' r_password))))"


section \<open>Registration\<close>

record register_attrs =
  reg_full_name :: string
  reg_email :: string
  password1 :: string
  password2 :: string

text \<open>
  The writable fields of \<open>RegisterSerializer\<close>, in the order of \<open>Meta.fields\<close>:
  \<open>full_name\<close> and \<open>email\<close> derived from the user model, and \<open>password1\<close>,
  \<open>password2\<close> declared as \<open>CharField(max_length=40, min_length=4)\<close>. No instance is
  being updated.
\<close>

definition RegisterSerializer_to_internal_value ::
  "env \<Rightarrow> user list \<Rightarrow> (string \<rightharpoonup> string) \<Rightarrow> exn + register_attrs" where
  "RegisterSerializer_to_internal_value E rows data =
     (let r_full_name = model_field_run_validation E None rows ''full_name'' (data ''full_name'');
          r_email = model_field_run_validation E None rows ''email'' (data ''email'');
          r_password1 = CharField_run_validation E (Some 40) (Some 4) False (data ''password1'');
          r_password2 = CharField_run_validation E (Some 40) (Some 4) False (data ''password2'')
      in case (r_full_name, r_email, r_password1, r_password2) of
           (Inr name, Inr em, Inr p1, Inr p2) \<Rightarrow>
             Inr \<lparr>reg_full_name = name, reg_email = em, password1 = p1, password2 = p2\<rparr>
         | _ \<Rightarrow>
             Inl (ValidationError
                    (JDict (field_errors ''full_name'' r_full_name @
                            field_errors ''email'' r_email @
                            field_errors ''password1'' r_password1 @
                            field_errors ''password2'' r_password2))))"

definition RegisterSerializer_validate :: "register_attrs \<Rightarrow> exn + register_attrs" where
  "RegisterSerializer_validate attrs =
     (if password1 attrs \<noteq> password2 attrs
      then Inl (validation_error ''The password fields didn't match'')
      else Inr attrs)"

text \<open>The key that the table gives to a new row: above every key in use.\<close>

definition next_id :: "user list \<Rightarrow> int" where
  "next_id rows = foldr max (map uid rows) 0 + 1"

text \<open>
  Modelled from the spec: \<open>User.objects.create_user\<close> is part of the user model, which
  is not among the sources. The store enforces the uniqueness of the email: no row is
  written for an email that a row has already. Otherwise a user is created unverified,
  with no OTP, under a new identifier, and holds the hash of the password; it is
  active, as users of Django's base class are unless told otherwise. The row is
  written to the table.
\<close>

definition create_user ::
  "env \<Rightarrow> user list \<Rightarrow> string \<Rightarrow> string \<Rightarrow> string \<Rightarrow> exn + user" where
  "create_user E rows name em pw =
     (if objects_exists (\<lambda>u. email u = em) rows then Inl IntegrityError
      else Inr \<lparr>uid = next_id rows, email = em, full_name = name,
                 password = make_password E pw, is_verified = False, is_active = True,
                 otp = None, otp_created_at = None\<rparr>)"

text \<open>
  \<open>send_mail(..., fail_silently=...)\<close>: the number of messages sent. When the mail
  server refuses the message, the exception is raised unless \<open>fail_silently\<close> is set.
\<close>

definition send_mail :: "env \<Rightarrow> bool \<Rightarrow> mail \<Rightarrow> state \<Rightarrow> (exn + nat) \<times> state" where
  "send_mail E fail_silently m s =
     (if deliver E m then (Inr 1, s\<lparr>outbox := outbox s @ [m]\<rparr>)
      else if fail_silently then (Inr 0, s)
      else (Inl SMTPException, s))"

text \<open>
  The mail that carries the OTP. The line breaks inside the message literal of the
  source are rendered as single spaces.
\<close>

definition otp_mail :: "string \<Rightarrow> string \<Rightarrow> mail" where
  "otp_mail code recipient =
     \<lparr>subject = ''Techplaza OTP for Registration Verification'',
      body = ''Your OTP for registration verification is '' @ code @
             '' please use this link https://frontend-techplaza-d0af91d53972.herokuapp.com/otp/verify if you close your browser window. Note: Your email will be deleted from our database after 14 days if not verified.'',
      from_email = ''techplaza1@hotmail.com'',
      recipients = [recipient]\<rparr>"

definition registered_response :: "user \<Rightarrow> response" where
  "registered_response u =
     Response (JDict [(''data'', JDict [(''full_name'', JStr (full_name u)),
                                        (''email'', JStr (email u))]),
                      (''message'', JStr (''Thanks for your Registration '' @ full_name u @
                         '','' @ [CHR 0x0A] @ replicate 28 (CHR '' '') @
                         ''a verified code has been sent to your Email.''))]) 201"

text \<open>
  \<open>RegisterView.post\<close> on the request data. \<open>code\<close> is the string drawn by
  \<open>random.choices\<close>, \<open>now\<close> the value of \<open>timezone.now()\<close>.
  \<open>is_valid(raise_exception=True)\<close> raises the errors of the fields, or else what
  \<open>validate\<close> raises. The user is written twice, by \<open>create_user\<close> and by
  \<open>user.save()\<close> after the OTP fields are set; then the mail is sent with
  \<open>fail_silently=False\<close>.
\<close>

definition RegisterView_post ::
  "env \<Rightarrow> int \<Rightarrow> string \<Rightarrow> state \<Rightarrow> (string \<rightharpoonup> string) \<Rightarrow> outcome" where
  "RegisterView_post E now code s data =
     (case RegisterSerializer_to_internal_value E (users s) data of
        Inl e \<Rightarrow> (Inl e, s)
      | Inr attrs \<Rightarrow>
          (case is_valid_raise (RegisterSerializer_validate attrs) of
             Inl e \<Rightarrow> (Inl e, s)
           | Inr validated \<Rightarrow>
               (case create_user E (users s) (reg_full_name validated)
                       (reg_email validated) (password1 validated) of
                  Inl e \<Rightarrow> (Inl e, s)
                | Inr created \<Rightarrow>
                    (let s1 = s\<lparr>users := save created (users s)\<rparr>;
                         usr = created\<lparr>otp := Some code, otp_created_at := Some now\<rparr>;
                         s2 = s1\<lparr>users := save usr (users s1)\<rparr>
                     in case send_mail E False (otp_mail code (email usr)) s2 of
                          (Inl e, s3) \<Rightarrow> (Inl e, s3)
                        | (Inr n, s3) \<Rightarrow> (Inr (registered_response usr), s3)))))"

section \<open>Account update\<close>

text \<open>
  The validated attributes of a partial update: a field that the request leaves out is
  \<open>None\<close>.
\<close>

record update_attrs =
  upd_full_name :: "string option"
  upd_email :: "string option"

definition validate_email :: "user list \<Rightarrow> string \<Rightarrow> exn + string" where
  "validate_email rows v =
     (if objects_exists (\<lambda>u. email u = v) rows
      then Inl (validation_error ''This email is already in use.'')
      else Inr v)"

text \<open>
  The fields of \<open>UpdateAccountInfoSerializer\<close> on a partial update of the instance
  \<open>usr\<close>, in the order of \<open>Meta.fields\<close>: both are derived from the user model. A field
  that the request leaves out is skipped. \<open>validate_email\<close> runs on the value of the
  email field once the validators of the field have accepted it; what either of them
  raises is filed under the field.
\<close>

definition UpdateAccountInfoSerializer_to_internal_value ::
  "env \<Rightarrow> user \<Rightarrow> user list \<Rightarrow> (string \<rightharpoonup> string) \<Rightarrow> exn + update_attrs" where
  "UpdateAccountInfoSerializer_to_internal_value E usr rows data =
     (let r_full_name =
            (case data ''full_name'' of
               None \<Rightarrow> Inr None
             | Some raw \<Rightarrow>
                 map_sum id Some
                   (model_field_run_validation E (Some usr) rows ''full_name'' (Some raw)));
          r_email =
            (case data ''email'' of
               None \<Rightarrow> Inr None
             | Some raw \<Rightarrow>
                 (case model_field_run_validation E (Some usr) rows ''email'' (Some raw) of
                    Inl e \<Rightarrow> Inl e
                  | Inr v \<Rightarrow> map_sum id Some (validate_email rows v)))
      in case (r_full_name, r_email) of
           (Inr name, Inr em) \<Rightarrow> Inr \<lparr>upd_full_name = name, upd_email = em\<rparr>
         | _ \<Rightarrow>
             Inl (ValidationError
                    (JDict (field_errors ''full_name'' r_full_name @
                            field_errors ''email'' r_email))))"

text \<open>
  \<open>UpdateInformationView.patch\<close> on the request data; \<open>usr\<close> is \<open>request.user\<close>. An
  invalid serializer is answered with \<open>serializer.errors\<close> and status 400. A valid one
  writes the supplied fields to the user and saves the row.
\<close>

definition UpdateInformationView_patch ::
  "env \<Rightarrow> state \<Rightarrow> user \<Rightarrow> (string \<rightharpoonup> string) \<Rightarrow> outcome" where
  "UpdateInformationView_patch E s usr data =
     (case UpdateAccountInfoSerializer_to_internal_value E usr (users s) data of
        Inl (ValidationError d) \<Rightarrow> (Inr (Response d 400), s)
      | Inl e \<Rightarrow> (Inl e, s)
      | Inr attrs \<Rightarrow>
          (let u' = usr\<lparr>full_name := (case upd_full_name attrs of
                                        None \<Rightarrow> full_name usr | Some n \<Rightarrow> n),
                         email := (case upd_email attrs of
                                     None \<Rightarrow> email usr | Some e \<Rightarrow> e)\<rparr>
           in (Inr (Response (JDict [(''full_name'', JStr (full_name u')),
                                     (''email'', JStr (email u'))]) 200),
               s\<lparr>users := save u' (users s)\<rparr>)))"

section \<open>Example data\<close>

text \<open>
  Stand-ins for the library functions, on the few inputs that the examples use: the
  base64 strings \<open>MQ\<close> and \<open>OTk5\<close> of the identifiers 1 and 999, a hash that keeps the
  raw password readable, a reset token that is a function of the stored hash, and one
  refresh token. The examples have no white space to trim, their addresses are well
  formed, and the columns of the user model accept their names and addresses.
\<close>

definition demo_env :: env where
  "demo_env =
     \<lparr>urlsafe_base64_decode =
        (\<lambda>b. if b = ''MQ'' then Some ''1'' else if b = ''OTk5'' then Some ''999'' else None),
      decode_utf8 = Some,
      to_python_int =
        (\<lambda>t. if t = ''1'' then Some 1 else if t = ''999'' then Some 999 else None),
      make_token = (\<lambda>u. ''tok-'' @ password u),
      check_token = (\<lambda>u t. t = ''tok-'' @ password u),
      make_password = (\<lambda>raw. ''hash-'' @ raw),
      check_password = (\<lambda>raw enc. enc = ''hash-'' @ raw),
      decode_refresh = (\<lambda>t. if t = ''refresh-1'' then Some ''jti-1'' else None),
      user_tokens = (\<lambda>u. [''refresh'' \<mapsto> ''refresh-1'', ''access'' \<mapsto> ''access-1'']),
      user_full_name = full_name,
      deliver = (\<lambda>m. True),
      strip = (\<lambda>t. t),
      email_valid = (\<lambda>t. CHR ''@'' \<in> set t),
      column_clean =
        (\<lambda>name raw. if raw = [] then Inl (JList [JStr ''This field may not be blank.''])
                     else Inr (raw, [])),
      unique_message = ''user with this email already exists.''\<rparr>"

text \<open>The same, with a mail server that refuses every message.\<close>

definition demo_env_mail_down :: env where
  "demo_env_mail_down = demo_env\<lparr>deliver := (\<lambda>m. False)\<rparr>"

text \<open>
  Alice registered at time 0 and has not verified her address; Bob is verified.
\<close>

definition alice :: user where
  "alice =
     \<lparr>uid = 1, email = ''alice@example.com'', full_name = ''Alice'',
      password = ''hash-oldpass'', is_verified = False, is_active = True,
      otp = Some ''A1B2C3'', otp_created_at = Some 0\<rparr>"

definition bob :: user where
  "bob =
     \<lparr>uid = 2, email = ''bob@example.com'', full_name = ''Bob'',
      password = ''hash-bobpass'', is_verified = True, is_active = True,
      otp = Some ''Z9Y8X7'', otp_created_at = Some 0\<rparr>"

definition demo_state :: state where
  "demo_state = \<lparr>users = [alice, bob], blacklisted = [], outbox = [], logged = []\<rparr>"

definition alice_otp_request :: "string \<rightharpoonup> string" where
  "alice_otp_request = [''otp'' \<mapsto> ''A1B2C3'', ''email'' \<mapsto> ''alice@example.com'']"

definition alice_wrong_otp_request :: "string \<rightharpoonup> string" where
  "alice_wrong_otp_request = [''otp'' \<mapsto> ''000000'', ''email'' \<mapsto> ''alice@example.com'']"

definition nobody_otp_request :: "string \<rightharpoonup> string" where
  "nobody_otp_request = [''otp'' \<mapsto> ''000000'', ''email'' \<mapsto> ''nobody@example.com'']"

text \<open>
  Two password resets for Alice with the token issued while her hash was still the
  old one, and one reset whose confirmation differs.
\<close>

definition reset_attrs1 :: new_password_attrs where
  "reset_attrs1 =
     \<lparr>np_password = ''newpass1'', np_password_confirm = ''newpass1'',
      np_uidb64 = ''MQ'', np_token = ''tok-hash-oldpass''\<rparr>"

definition reset_attrs2 :: new_password_attrs where
  "reset_attrs2 =
     \<lparr>np_password = ''newpass2'', np_password_confirm = ''newpass2'',
      np_uidb64 = ''MQ'', np_token = ''tok-hash-oldpass''\<rparr>"

definition reset_attrs_mismatch :: new_password_attrs where
  "reset_attrs_mismatch =
     \<lparr>np_password = ''newpass1'', np_password_confirm = ''newpass2'',
      np_uidb64 = ''MQ'', np_token = ''tok-hash-oldpass''\<rparr>"

definition state_after_reset :: state where
  "state_after_reset =
     demo_state\<lparr>users := [alice\<lparr>password := ''hash-newpass1''\<rparr>, bob]\<rparr>"

definition carol_attrs :: register_attrs where
  "carol_attrs =
     \<lparr>reg_full_name = ''Carol'', reg_email = ''carol@example.com'',
      password1 = ''carolpw'', password2 = ''carolpw''\<rparr>"

definition carol_request :: "string \<rightharpoonup> string" where
  "carol_request =
     [''full_name'' \<mapsto> ''Carol'', ''email'' \<mapsto> ''carol@example.com'',
      ''password1'' \<mapsto> ''carolpw'', ''password2'' \<mapsto> ''carolpw'']"





text \<open>Two updates by Alice: one resubmits her own address, one asks for Bob's.\<close>

definition alice_own_email_update :: "string \<rightharpoonup> string" where
  "alice_own_email_update =
     [''full_name'' \<mapsto> ''Alice A.'', ''email'' \<mapsto> ''alice@example.com'']"

definition alice_bob_email_update :: "string \<rightharpoonup> string" where
  "alice_bob_email_update = [''email'' \<mapsto> ''bob@example.com'']"

definition carol :: user where
  "carol =
     \<lparr>uid = 3, email = ''carol@example.com'', full_name = ''Carol'',
      password = ''hash-carolpw'', is_verified = False, is_active = True,
      otp = Some ''Q7W8E9'', otp_created_at = Some 5000000\<rparr>"

section \<open>Facts about the user table\<close>

lemma objects_get_Inr:
  assumes "objects_get p rows = Inr u"
  shows "filter p rows = [u]"
  using assms by (auto simp: objects_get_def split: list.splits)

lemma objects_get_Inr_mem:
  assumes "objects_get p rows = Inr u"
  shows "u \<in> set rows \<and> p u"
proof -
  have "u \<in> set (filter p rows)"
    using objects_get_Inr [OF assms] by simp
  then show ?thesis by simp
qed

lemma objects_get_missing:
  assumes "objects_exists p rows = False"
  shows "objects_get p rows = Inl DoesNotExist"
  using assms by (simp add: objects_get_def objects_exists_def)

lemma pk_unique:
  assumes "distinct (map uid rows)" "u \<in> set rows" "r \<in> set rows" "uid r = uid u"
  shows "r = u"
  using assms by (meson distinct_map inj_onD)

lemma save_existing:
  assumes "u \<in> set rows" "uid u' = uid u"
  shows "save u' rows = map (\<lambda>r. if uid r = uid u then u' else r) rows"
  using assms by (auto simp: save_def)

lemma save_existing_pk:
  assumes pk: "distinct (map uid rows)" and mem: "u \<in> set rows" and same: "uid u' = uid u"
  shows "save u' rows = map (\<lambda>r. if r = u then u' else r) rows"
proof -
  have "map (\<lambda>r. if uid r = uid u then u' else r) rows = map (\<lambda>r. if r = u then u' else r) rows"
  proof (rule map_cong [OF refl])
    fix r assume r: "r \<in> set rows"
    show "(if uid r = uid u then u' else r) = (if r = u then u' else r)"
      using pk_unique [OF pk mem r] by auto
  qed
  with save_existing [OF mem same] show ?thesis by simp
qed

lemma save_twice:
  "save u' (save u' rows) = save u' rows"
proof (cases "uid u' \<in> set (map uid rows)")
  case True
  let ?f = "\<lambda>r. if uid r = uid u' then u' else r"
  from True have 1: "save u' rows = map ?f rows"
    by (simp add: save_def)
  from True have "uid u' \<in> set (map uid (map ?f rows))"
    by (auto simp: image_iff)
  then have "save u' (map ?f rows) = map ?f (map ?f rows)"
    by (simp only: save_def if_True)
  also have "\<dots> = map ?f rows"
    by simp
  finally show ?thesis
    using 1 by simp
next
  case False
  then have 1: "save u' rows = rows @ [u']"
    by (simp add: save_def)
  have "save u' (rows @ [u']) = map (\<lambda>r. if uid r = uid u' then u' else r) (rows @ [u'])"
    by (simp add: save_def)
  also have "\<dots> = rows @ [u']"
  proof -
    have "\<And>r. r \<in> set rows \<Longrightarrow> uid r \<noteq> uid u'"
      using False by (metis image_eqI list.set_map)
    then show ?thesis
      by (simp add: map_idI)
  qed
  finally show ?thesis
    using 1 by simp
qed

lemma objects_get_after_save:
  assumes got: "objects_get (\<lambda>x. email x = em) rows = Inr u"
    and pk: "distinct (map uid rows)"
    and same: "uid u' = uid u" "email u' = email u"
  shows "objects_get (\<lambda>x. email x = em) (save u' rows) = Inr u'"
proof -
  let ?f = "\<lambda>r. if uid r = uid u then u' else r"
  from objects_get_Inr_mem [OF got] have mem: "u \<in> set rows" and em: "email u = em"
    by simp_all
  have "filter (\<lambda>x. email x = em) (map ?f rows)
        = map ?f (filter ((\<lambda>x. email x = em) \<circ> ?f) rows)"
    by (simp add: filter_map)
  also have "filter ((\<lambda>x. email x = em) \<circ> ?f) rows = filter (\<lambda>x. email x = em) rows"
  proof (rule filter_cong [OF refl])
    fix r assume r: "r \<in> set rows"
    show "((\<lambda>x. email x = em) \<circ> ?f) r = (email r = em)"
    proof (cases "uid r = uid u")
      case True
      have "r = u" by (rule pk_unique [OF pk mem r True])
      with True same em show ?thesis by simp
    next
      case False
      then show ?thesis by simp
    qed
  qed
  also have "map ?f (filter (\<lambda>x. email x = em) rows) = [u']"
    using objects_get_Inr [OF got] by simp
  finally show ?thesis
    using save_existing [OF mem same(1)] by (simp add: objects_get_def)
qed

section \<open>Properties of OTP verification\<close>

lemma responses_distinct:
  "otp_verified_response \<noteq> otp_invalid_response"
  "otp_verified_response \<noteq> otp_required_response"
  "otp_verified_response \<noteq> user_missing_response"
  "user_missing_response \<noteq> otp_invalid_response"
  by (simp_all add: otp_verified_response_def otp_invalid_response_def
      otp_required_response_def user_missing_response_def)

lemma VerifyEmail_post_found:
  assumes "data ''otp'' = Some code" "code \<noteq> []" "data ''email'' = Some em" "em \<noteq> []"
    and "objects_get (\<lambda>u. email u = em) (users s) = Inr u"
  shows "VerifyEmail_post now s data =
     (if otp u = Some code
      then (case otp_created_at u of
              None \<Rightarrow> (Inl TypeError, s)
            | Some created \<Rightarrow>
                if now - created \<le> timedelta_minutes 15
                then (Inr otp_verified_response,
                      s\<lparr>users := save (u\<lparr>is_verified := True\<rparr>) (users s)\<rparr>)
                else (Inr otp_invalid_response, s))
      else (Inr otp_invalid_response, s))"
  using assms by (simp add: VerifyEmail_post_def)

lemma VerifyEmail_post_verifiedE:
  assumes "fst (VerifyEmail_post now s data) = Inr otp_verified_response"
  obtains u code em created where
    "data ''otp'' = Some code" "code \<noteq> []" "data ''email'' = Some em" "em \<noteq> []"
    "objects_get (\<lambda>u. email u = em) (users s) = Inr u"
    "otp u = Some code" "otp_created_at u = Some created"
    "now - created \<le> timedelta_minutes 15"
proof (cases "data ''otp''")
  case None
  with assms show ?thesis
    by (simp add: VerifyEmail_post_def responses_distinct [symmetric])
next
  case otp: (Some code)
  show ?thesis
  proof (cases "data ''email''")
    case None
    with assms otp show ?thesis
      by (simp add: VerifyEmail_post_def responses_distinct [symmetric])
  next
    case em: (Some em)
    show ?thesis
    proof (cases "code = [] \<or> em = []")
      case True
      with assms otp em show ?thesis
        by (auto simp: VerifyEmail_post_def responses_distinct [symmetric])
    next
      case False
      then have ne: "code \<noteq> []" "em \<noteq> []" by simp_all
      show ?thesis
      proof (cases "objects_get (\<lambda>u. email u = em) (users s)")
        case (Inl e)
        with assms otp em ne show ?thesis
          by (cases e) (simp_all add: VerifyEmail_post_def responses_distinct [symmetric])
      next
        case (Inr u)
        note found = VerifyEmail_post_found [OF otp ne(1) em ne(2) Inr, of now]
        from assms found have 1: "otp u = Some code"
          by (auto simp: responses_distinct [symmetric] split: if_splits)
        from assms found 1 obtain created where 2: "otp_created_at u = Some created"
          by (cases "otp_created_at u") auto
        from assms found 1 2 have 3: "now - created \<le> timedelta_minutes 15"
          by (auto simp: responses_distinct [symmetric] split: if_splits)
        from otp ne(1) em ne(2) Inr 1 2 3 show ?thesis ..
      qed
    qed
  qed
qed

text \<open>
  C5. An OTP verification attempt on an existing user, that is a request that carries
  an OTP and an email under which exactly one user is found, succeeds if and only if
  the submitted OTP equals the stored one and at most 15 minutes have passed since
  \<open>otp_created_at\<close>. From 15 minutes and 1 second on (indeed as soon as more than 15
  minutes have passed) the attempt fails with the invalid-or-expired response whatever
  the code is; a wrong code fails with the same response; and whenever the attempt does
  not succeed, the state is left as it was.
\<close>

theorem VerifyEmail_post_succeeds_iff:
  assumes "data ''otp'' = Some code" "code \<noteq> []" "data ''email'' = Some em" "em \<noteq> []"
    and "objects_get (\<lambda>u. email u = em) (users s) = Inr u"
  shows "(fst (VerifyEmail_post now s data) = Inr otp_verified_response \<longleftrightarrow>
            otp u = Some code \<and>
            (\<exists>created. otp_created_at u = Some created \<and> now - created \<le> timedelta_minutes 15))
       \<and> (\<forall>created. otp_created_at u = Some created \<and>
              timedelta_minutes 15 + timedelta_seconds 1 \<le> now - created \<longrightarrow>
              VerifyEmail_post now s data = (Inr otp_invalid_response, s))
       \<and> (\<forall>created. otp_created_at u = Some created \<and> timedelta_minutes 15 < now - created \<longrightarrow>
              VerifyEmail_post now s data = (Inr otp_invalid_response, s))
       \<and> (otp u \<noteq> Some code \<longrightarrow> VerifyEmail_post now s data = (Inr otp_invalid_response, s))
       \<and> (fst (VerifyEmail_post now s data) \<noteq> Inr otp_verified_response \<longrightarrow>
              snd (VerifyEmail_post now s data) = s)"
proof -
  note found = VerifyEmail_post_found [OF assms, of now]
  have iff: "fst (VerifyEmail_post now s data) = Inr otp_verified_response \<longleftrightarrow>
            otp u = Some code \<and>
            (\<exists>created. otp_created_at u = Some created \<and> now - created \<le> timedelta_minutes 15)"
    unfolding found
    by (cases "otp_created_at u") (simp_all add: responses_distinct [symmetric])
  have late: "VerifyEmail_post now s data = (Inr otp_invalid_response, s)"
    if "otp_created_at u = Some created" "timedelta_minutes 15 < now - created" for created
    unfolding found using that by simp
  have later: "VerifyEmail_post now s data = (Inr otp_invalid_response, s)"
    if "otp_created_at u = Some created"
      "timedelta_minutes 15 + timedelta_seconds 1 \<le> now - created" for created
  proof -
    from that(2) have "timedelta_minutes 15 < now - created"
      by (simp add: timedelta_seconds_def)
    with that(1) show ?thesis by (rule late)
  qed
  have wrong: "VerifyEmail_post now s data = (Inr otp_invalid_response, s)"
    if "otp u \<noteq> Some code"
    unfolding found using that by simp
  have frame: "snd (VerifyEmail_post now s data) = s"
    if "fst (VerifyEmail_post now s data) \<noteq> Inr otp_verified_response"
    using that unfolding found
    by (cases "otp_created_at u") (simp_all split: if_splits)
  from iff late later wrong frame show ?thesis by blast
qed

theorem VerifyEmail_post_succeeds_iff_witness:
  "fst (VerifyEmail_post 600000000 demo_state alice_otp_request) = Inr otp_verified_response
   \<and> VerifyEmail_post 901000000 demo_state alice_otp_request = (Inr otp_invalid_response, demo_state)"
proof -
  have h1: "alice_otp_request ''otp'' = Some ''A1B2C3''"
    by (simp add: alice_otp_request_def)
  have h2: "''A1B2C3'' \<noteq> []"
    by simp
  have h3: "alice_otp_request ''email'' = Some ''alice@example.com''"
    by (simp add: alice_otp_request_def)
  have h4: "''alice@example.com'' \<noteq> []"
    by simp
  have h5: "objects_get (\<lambda>u. email u = ''alice@example.com'') (users demo_state) = Inr alice"
    by (simp add: objects_get_def demo_state_def alice_def bob_def)
  have a: "otp alice = Some ''A1B2C3''" "otp_created_at alice = Some 0"
    by (simp_all add: alice_def)
  from VerifyEmail_post_succeeds_iff [OF h1 h2 h3 h4 h5, of 600000000] a
  have 1: "fst (VerifyEmail_post 600000000 demo_state alice_otp_request) = Inr otp_verified_response"
    by (simp add: timedelta_minutes_def)
  from VerifyEmail_post_succeeds_iff [OF h1 h2 h3 h4 h5, of 901000000] a
  have 2: "VerifyEmail_post 901000000 demo_state alice_otp_request = (Inr otp_invalid_response, demo_state)"
    by (simp add: timedelta_minutes_def timedelta_seconds_def)
  from 1 2 show ?thesis ..
qed

text \<open>
  C6. A successful OTP verification, on a table whose primary keys are distinct,
  changes one thing: the row of the user found has \<open>is_verified\<close> set. Its \<open>otp\<close> and
  \<open>otp_created_at\<close>, its other fields, every other row and the rest of the state stay
  as they were. Hence the same request succeeds again, without any further change,
  as long as at most 15 minutes have passed since \<open>otp_created_at\<close>, and fails with
  the invalid-or-expired response afterwards.
\<close>

theorem VerifyEmail_post_success_frame:
  assumes ok: "VerifyEmail_post now s data = (Inr otp_verified_response, s')"
    and pk: "distinct (map uid (users s))"
  shows "\<exists>u code em created.
           data ''otp'' = Some code \<and> data ''email'' = Some em \<and>
           objects_get (\<lambda>x. email x = em) (users s) = Inr u \<and>
           otp u = Some code \<and> otp_created_at u = Some created \<and>
           s' = s\<lparr>users := map (\<lambda>r. if r = u then u\<lparr>is_verified := True\<rparr> else r) (users s)\<rparr> \<and>
           objects_get (\<lambda>x. email x = em) (users s') = Inr (u\<lparr>is_verified := True\<rparr>) \<and>
           otp (u\<lparr>is_verified := True\<rparr>) = otp u \<and>
           otp_created_at (u\<lparr>is_verified := True\<rparr>) = otp_created_at u \<and>
           (\<forall>later. later - created \<le> timedelta_minutes 15 \<longrightarrow>
              VerifyEmail_post later s' data = (Inr otp_verified_response, s')) \<and>
           (\<forall>later. timedelta_minutes 15 < later - created \<longrightarrow>
              VerifyEmail_post later s' data = (Inr otp_invalid_response, s'))"
proof -
  from ok have "fst (VerifyEmail_post now s data) = Inr otp_verified_response"
    by simp
  then obtain u code em created where
    otp: "data ''otp'' = Some code" "code \<noteq> []" and
    em: "data ''email'' = Some em" "em \<noteq> []" and
    got: "objects_get (\<lambda>u. email u = em) (users s) = Inr u" and
    stored: "otp u = Some code" "otp_created_at u = Some created" and
    fresh: "now - created \<le> timedelta_minutes 15"
    by (rule VerifyEmail_post_verifiedE)
  let ?v = "u\<lparr>is_verified := True\<rparr>"
  from objects_get_Inr_mem [OF got] have mem: "u \<in> set (users s)"
    by simp
  have s': "s' = s\<lparr>users := save ?v (users s)\<rparr>"
    using ok stored fresh VerifyEmail_post_found [OF otp em got, of now] by simp
  have rows: "save ?v (users s) = map (\<lambda>r. if r = u then ?v else r) (users s)"
    by (rule save_existing_pk [OF pk mem]) simp
  have got': "objects_get (\<lambda>x. email x = em) (users s') = Inr ?v"
    using objects_get_after_save [OF got pk, of ?v] s' by simp
  have again: "s'\<lparr>users := save (?v\<lparr>is_verified := True\<rparr>) (users s')\<rparr> = s'"
    using s' by (simp add: save_twice)
  note found' = VerifyEmail_post_found [OF otp em got']
  have within: "VerifyEmail_post later s' data = (Inr otp_verified_response, s')"
    if "later - created \<le> timedelta_minutes 15" for later
    using that stored again by (simp add: found')
  have outside: "VerifyEmail_post later s' data = (Inr otp_invalid_response, s')"
    if "timedelta_minutes 15 < later - created" for later
    using that stored by (simp add: found')
  from otp em got stored s' rows got' within outside show ?thesis
    by (intro exI [of _ u] exI [of _ code] exI [of _ em] exI [of _ created]) simp
qed

theorem VerifyEmail_post_success_frame_witness:
  "VerifyEmail_post 600000000 demo_state alice_otp_request =
     (Inr otp_verified_response, demo_state\<lparr>users := [alice\<lparr>is_verified := True\<rparr>, bob]\<rparr>)
   \<and> distinct (map uid (users demo_state))
   \<and> VerifyEmail_post 900000000 (demo_state\<lparr>users := [alice\<lparr>is_verified := True\<rparr>, bob]\<rparr>)
         alice_otp_request =
       (Inr otp_verified_response, demo_state\<lparr>users := [alice\<lparr>is_verified := True\<rparr>, bob]\<rparr>)
   \<and> VerifyEmail_post 900000001 (demo_state\<lparr>users := [alice\<lparr>is_verified := True\<rparr>, bob]\<rparr>)
         alice_otp_request =
       (Inr otp_invalid_response, demo_state\<lparr>users := [alice\<lparr>is_verified := True\<rparr>, bob]\<rparr>)"
proof -
  let ?s' = "demo_state\<lparr>users := [alice\<lparr>is_verified := True\<rparr>, bob]\<rparr>"
  have ok: "VerifyEmail_post 600000000 demo_state alice_otp_request =
     (Inr otp_verified_response, ?s')"
    by (simp add: VerifyEmail_post_def alice_otp_request_def demo_state_def objects_get_def
        save_def alice_def bob_def timedelta_minutes_def)
  have pk: "distinct (map uid (users demo_state))"
    by (simp add: demo_state_def alice_def bob_def)
  from VerifyEmail_post_success_frame [OF ok pk] obtain u code em created where
    em: "alice_otp_request ''email'' = Some em" and
    got: "objects_get (\<lambda>x. email x = em) (users demo_state) = Inr u" and
    created: "otp_created_at u = Some created" and
    within: "\<forall>later. later - created \<le> timedelta_minutes 15 \<longrightarrow>
       VerifyEmail_post later ?s' alice_otp_request = (Inr otp_verified_response, ?s')" and
    outside: "\<forall>later. timedelta_minutes 15 < later - created \<longrightarrow>
       VerifyEmail_post later ?s' alice_otp_request = (Inr otp_invalid_response, ?s')"
    by blast
  from em have "em = ''alice@example.com''"
    by (simp add: alice_otp_request_def)
  with got have "u = alice"
    by (simp add: objects_get_def demo_state_def alice_def bob_def)
  with created have c: "created = 0"
    by (simp add: alice_def)
  from within c have 1: "VerifyEmail_post 900000000 ?s' alice_otp_request =
      (Inr otp_verified_response, ?s')"
    by (simp add: timedelta_minutes_def)
  from outside c have 2: "VerifyEmail_post 900000001 ?s' alice_otp_request =
      (Inr otp_invalid_response, ?s')"
    by (simp add: timedelta_minutes_def)
  from ok pk 1 2 show ?thesis
    by (intro conjI)
qed

text \<open>
  C7, as amended. An OTP verification request that carries an OTP and an email under
  which no user is found is answered with status 400 and the message
  \<open>User does not exist.\<close>; the email is written to the log and no user row changes.
  This answer differs from the one given for a wrong or expired OTP of an existing
  user, so it tells the caller that no account has this email.
\<close>

theorem VerifyEmail_post_unknown_email:
  assumes "data ''otp'' = Some code" "code \<noteq> []" "data ''email'' = Some em" "em \<noteq> []"
    and "objects_exists (\<lambda>u. email u = em) (users s) = False"
  shows "VerifyEmail_post now s data =
           (Inr user_missing_response,
            s\<lparr>logged := logged s @ [''User with email '' @ em @ '' does not exist.'']\<rparr>)
       \<and> users (snd (VerifyEmail_post now s data)) = users s
       \<and> user_missing_response = Response (JDict [(''error'', JStr ''User does not exist.'')]) 400
       \<and> user_missing_response \<noteq> otp_invalid_response"
proof -
  have 1: "VerifyEmail_post now s data =
           (Inr user_missing_response,
            s\<lparr>logged := logged s @ [''User with email '' @ em @ '' does not exist.'']\<rparr>)"
    using assms objects_get_missing [OF assms(5)] by (simp add: VerifyEmail_post_def)
  have 2: "user_missing_response = Response (JDict [(''error'', JStr ''User does not exist.'')]) 400"
    by (simp add: user_missing_response_def)
  from 1 2 responses_distinct(4) show ?thesis
    by simp
qed

theorem VerifyEmail_post_unknown_email_witness:
  "VerifyEmail_post 600000000 demo_state nobody_otp_request =
     (Inr user_missing_response,
      demo_state\<lparr>logged := [''User with email nobody@example.com does not exist.'']\<rparr>)"
proof -
  have h1: "nobody_otp_request ''otp'' = Some ''000000''"
    by (simp add: nobody_otp_request_def)
  have h2: "''000000'' \<noteq> []"
    by simp
  have h3: "nobody_otp_request ''email'' = Some ''nobody@example.com''"
    by (simp add: nobody_otp_request_def)
  have h4: "''nobody@example.com'' \<noteq> []"
    by simp
  have h5: "objects_exists (\<lambda>u. email u = ''nobody@example.com'') (users demo_state) = False"
    by (simp add: objects_exists_def demo_state_def alice_def bob_def)
  from VerifyEmail_post_unknown_email [OF h1 h2 h3 h4 h5, of 600000000] show ?thesis
    by (simp add: demo_state_def)
qed

text \<open>
  The claim C7 as it was stated fails: with the same wrong code, the answer for an
  unknown email and the answer for Alice's email are different responses.
\<close>

theorem VerifyEmail_post_reveals_missing_account:
  "fst (VerifyEmail_post 600000000 demo_state nobody_otp_request) = Inr user_missing_response
   \<and> fst (VerifyEmail_post 600000000 demo_state alice_wrong_otp_request) = Inr otp_invalid_response
   \<and> fst (VerifyEmail_post 600000000 demo_state nobody_otp_request)
       \<noteq> fst (VerifyEmail_post 600000000 demo_state alice_wrong_otp_request)"
  by (simp add: VerifyEmail_post_def nobody_otp_request_def alice_wrong_otp_request_def
      demo_state_def objects_get_def alice_def bob_def responses_distinct)


section \<open>Properties of the account update\<close>

lemma field_errors_other_key:
  assumes "name \<noteq> key"
  shows "map_of (field_errors name r) key = None"
proof (cases r)
  case (Inl e)
  with assms show ?thesis by (cases e) simp_all
next
  case (Inr v)
  then show ?thesis by simp
qed

lemma UpdateInformationView_patch_email_refused:
  assumes "data ''email'' = Some raw"
    and "(case model_field_run_validation E (Some usr) (users s) ''email'' (Some raw) of
            Inl e \<Rightarrow> Inl e
          | Inr v \<Rightarrow> map_sum id Some (validate_email (users s) v)) = Inl (ValidationError d)"
  shows "\<exists>errs. UpdateInformationView_patch E s usr data = (Inr (Response (JDict errs) 400), s)
           \<and> map_of errs ''email'' = Some d"
proof -
  let ?r = "case data ''full_name'' of
               None \<Rightarrow> Inr None
             | Some raw \<Rightarrow>
                 map_sum id Some
                   (model_field_run_validation E (Some usr) (users s) ''full_name'' (Some raw))"
  let ?errs = "field_errors ''full_name'' ?r @ [(''email'', d)]"
  have "UpdateAccountInfoSerializer_to_internal_value E usr (users s) data =
      Inl (ValidationError (JDict ?errs))"
    using assms
    by (cases ?r) (simp_all add: UpdateAccountInfoSerializer_to_internal_value_def Let_def)
  then have 1: "UpdateInformationView_patch E s usr data = (Inr (Response (JDict ?errs) 400), s)"
    by (simp add: UpdateInformationView_patch_def)
  have 2: "map_of ?errs ''email'' = Some d"
    by (simp add: map_add_def field_errors_other_key)
  from 1 2 show ?thesis
    by blast
qed

text \<open>
  C10. Take an update that supplies an email which the checks of the email column
  accept, as they do for an address that a user has registered with, and let \<open>v\<close> be
  the value they give. If some user row has the email \<open>v\<close>, the update is refused: the
  answer has status 400 and a duplicate-email error under the field, and the state is
  left as it was. The error is the message of the uniqueness validator when a row
  other than the caller's has the email, and \<open>This email is already in use.\<close>, raised
  by \<open>validate_email\<close>, when only the caller's own row has it. So the caller's own row
  counts: a caller who resubmits the email they already have is refused too.
\<close>

theorem UpdateInformationView_patch_duplicate_email:
  assumes supplied: "data ''email'' = Some raw"
    and accepted: "column_clean E ''email'' raw = Inr (v, [])"
    and taken: "r \<in> set (users s)" "email r = v"
  shows "\<exists>errs. UpdateInformationView_patch E s usr data = (Inr (Response (JDict errs) 400), s)
           \<and> map_of errs ''email'' =
               Some (JList [JStr (if unique_validator_hits (Some usr) (users s) v
                                  then unique_message E
                                  else ''This email is already in use.'')])"
proof -
  from taken have "r \<in> set (filter (\<lambda>u. email u = v) (users s))"
    by simp
  then have exists: "objects_exists (\<lambda>u. email u = v) (users s)"
    unfolding objects_exists_def by (metis empty_iff list.set(1))
  let ?m = "if unique_validator_hits (Some usr) (users s) v
            then unique_message E else ''This email is already in use.''"
  have "(case model_field_run_validation E (Some usr) (users s) ''email'' (Some raw) of
            Inl e \<Rightarrow> Inl e
          | Inr v \<Rightarrow> map_sum id Some (validate_email (users s) v)) =
        Inl (ValidationError (JList [JStr ?m]))"
    using accepted exists
    by (simp add: model_field_run_validation_def validate_email_def validation_error_def)
  from UpdateInformationView_patch_email_refused [where data = data, OF supplied this]
  show ?thesis .
qed

theorem UpdateInformationView_patch_duplicate_email_witness:
  "UpdateInformationView_patch demo_env demo_state alice alice_own_email_update =
     (Inr (Response (JDict [(''email'', JList [JStr ''This email is already in use.''])]) 400),
      demo_state)
   \<and> (\<exists>errs. UpdateInformationView_patch demo_env demo_state alice alice_bob_email_update =
                 (Inr (Response (JDict errs) 400), demo_state)
              \<and> map_of errs ''email'' =
                  Some (JList [JStr ''user with this email already exists.'']))"
proof -
  have supplied: "alice_own_email_update ''email'' = Some ''alice@example.com''"
    by (simp add: alice_own_email_update_def)
  have accepted: "column_clean demo_env ''email'' ''alice@example.com'' =
      Inr (''alice@example.com'', [])"
    by (simp add: demo_env_def)
  have taken: "alice \<in> set (users demo_state)" "email alice = ''alice@example.com''"
    by (simp_all add: demo_state_def alice_def)
  have own: "unique_validator_hits (Some alice) (users demo_state) ''alice@example.com'' = False"
    by (simp add: unique_validator_hits_def objects_exists_def demo_state_def alice_def bob_def)
  from UpdateInformationView_patch_duplicate_email
    [where data = alice_own_email_update and usr = alice, OF supplied accepted taken] own
  obtain errs where
    r: "UpdateInformationView_patch demo_env demo_state alice alice_own_email_update =
          (Inr (Response (JDict errs) 400), demo_state)" and
    m: "map_of errs ''email'' = Some (JList [JStr ''This email is already in use.''])"
    by auto
  have "UpdateInformationView_patch demo_env demo_state alice alice_own_email_update =
      (Inr (Response (JDict [(''email'', JList [JStr ''This email is already in use.''])]) 400),
       demo_state)"
    by (simp add: UpdateInformationView_patch_def UpdateAccountInfoSerializer_to_internal_value_def
        model_field_run_validation_def unique_validator_hits_def validate_email_def
        validation_error_def objects_exists_def alice_own_email_update_def
        demo_env_def demo_state_def alice_def bob_def)
  with r m have 1: "UpdateInformationView_patch demo_env demo_state alice alice_own_email_update =
      (Inr (Response (JDict [(''email'', JList [JStr ''This email is already in use.''])]) 400),
       demo_state)"
    by simp
  have supplied': "alice_bob_email_update ''email'' = Some ''bob@example.com''"
    by (simp add: alice_bob_email_update_def)
  have accepted': "column_clean demo_env ''email'' ''bob@example.com'' =
      Inr (''bob@example.com'', [])"
    by (simp add: demo_env_def)
  have taken': "bob \<in> set (users demo_state)" "email bob = ''bob@example.com''"
    by (simp_all add: demo_state_def bob_def)
  have other: "unique_validator_hits (Some alice) (users demo_state) ''bob@example.com''"
    by (simp add: unique_validator_hits_def objects_exists_def demo_state_def alice_def bob_def)
  have message: "unique_message demo_env = ''user with this email already exists.''"
    by (simp add: demo_env_def)
  from UpdateInformationView_patch_duplicate_email
    [where data = alice_bob_email_update and usr = alice, OF supplied' accepted' taken']
    other message
  have 2: "\<exists>errs. UpdateInformationView_patch demo_env demo_state alice alice_bob_email_update =
                 (Inr (Response (JDict errs) 400), demo_state)
              \<and> map_of errs ''email'' =
                  Some (JList [JStr ''user with this email already exists.''])"
    by simp
  from 1 2 show ?thesis ..
qed


section \<open>Properties of login\<close>


lemma LoginSerializer_to_internal_value_Inr:
  assumes "LoginSerializer_to_internal_value E data = Inr attrs"
  shows "CharField_run_validation E (Some 255) (Some 10) True (data ''email'') =
           Inr (login_email attrs)
       \<and> CharField_run_validation E (Some 40) (Some 4) False (data ''password'') =
           Inr (login_password attrs)"
  using assms
  by (auto simp: LoginSerializer_to_internal_value_def Let_def split: sum.splits)

lemma CharField_run_validation_Inr:
  assumes "CharField_run_validation E (Some hi) (Some lo) is_email data = Inr v"
  shows "\<exists>raw. data = Some raw \<and> v = strip E raw \<and> lo \<le> length v \<and> length v \<le> hi \<and>
           (is_email \<longrightarrow> email_valid E v)"
  using assms
  by (auto simp: CharField_run_validation_def Let_def validation_error_def
      split: option.splits if_splits)





section \<open>Properties of logout\<close>

lemma fail_bad_token: "fail ''bad_token'' = validation_error ''Token expired''"
  by (simp add: fail_def default_error_messages_def)

lemma LogoutView_post_blacklisted:
  assumes "decode_refresh E tok = Some jti" "jti \<in> set (blacklisted s)"
  shows "LogoutView_post E s tok = (Inl (validation_error ''Token expired''), s)"
  using assms
  by (simp add: LogoutView_post_def LogoutSerializer_save_def RefreshToken_init_def fail_bad_token)

lemma LogoutView_post_successE:
  assumes "fst (LogoutView_post E s tok) = Inr r"
  obtains jti where "decode_refresh E tok = Some jti" "jti \<notin> set (blacklisted s)"
    "LogoutView_post E s tok = (Inr logout_response, blacklist jti s)"
proof (cases "decode_refresh E tok")
  case None
  with assms show ?thesis
    by (simp add: LogoutView_post_def LogoutSerializer_save_def RefreshToken_init_def)
next
  case (Some jti)
  show ?thesis
  proof (cases "jti \<in> set (blacklisted s)")
    case True
    with assms LogoutView_post_blacklisted [OF Some True] show ?thesis
      by simp
  next
    case False
    with Some have "LogoutView_post E s tok = (Inr logout_response, blacklist jti s)"
      by (simp add: LogoutView_post_def LogoutSerializer_save_def RefreshToken_init_def)
    with Some False show ?thesis ..
  qed
qed

text \<open>
  C4, as amended. When a logout with a refresh token succeeds, the token's \<open>jti\<close> is
  on the blacklist afterwards, and a second logout with the same token does not
  succeed: it raises the validation error \<open>Token expired\<close> registered under
  \<open>bad_token\<close>, and leaves the state, and so the blacklist entry, as the first
  logout left it.
\<close>

theorem LogoutView_post_second_call_fails:
  assumes "fst (LogoutView_post E s tok) = Inr r"
  shows "\<exists>jti. decode_refresh E tok = Some jti \<and>
           r = logout_response \<and>
           jti \<in> set (blacklisted (snd (LogoutView_post E s tok))) \<and>
           LogoutView_post E (snd (LogoutView_post E s tok)) tok =
             (Inl (ValidationError (JList [JStr ''Token expired''])), snd (LogoutView_post E s tok))"
proof -
  from assms obtain jti where
    jti: "decode_refresh E tok = Some jti" and
    first: "LogoutView_post E s tok = (Inr logout_response, blacklist jti s)"
    by (rule LogoutView_post_successE)
  have listed: "jti \<in> set (blacklisted (blacklist jti s))"
    by (simp add: blacklist_def)
  from LogoutView_post_blacklisted [OF jti listed] assms jti first listed show ?thesis
    by (simp add: validation_error_def)
qed

theorem LogoutView_post_second_call_fails_witness:
  "fst (LogoutView_post demo_env demo_state ''refresh-1'') = Inr logout_response
   \<and> ''jti-1'' \<in> set (blacklisted (snd (LogoutView_post demo_env demo_state ''refresh-1'')))
   \<and> LogoutView_post demo_env (snd (LogoutView_post demo_env demo_state ''refresh-1'')) ''refresh-1'' =
       (Inl (ValidationError (JList [JStr ''Token expired''])),
        snd (LogoutView_post demo_env demo_state ''refresh-1''))"
proof -
  have first: "fst (LogoutView_post demo_env demo_state ''refresh-1'') = Inr logout_response"
    by (simp add: LogoutView_post_def LogoutSerializer_save_def RefreshToken_init_def
        demo_env_def demo_state_def)
  have "decode_refresh demo_env ''refresh-1'' = Some ''jti-1''"
    by (simp add: demo_env_def)
  with LogoutView_post_second_call_fails [OF first] first show ?thesis
    by auto
qed

text \<open>
  The claim C4 as it was stated fails: the first logout with the example token
  succeeds, the second one with the same token does not return the success response.
\<close>

theorem LogoutView_post_not_idempotent:
  "fst (LogoutView_post demo_env demo_state ''refresh-1'') = Inr logout_response
   \<and> fst (LogoutView_post demo_env (snd (LogoutView_post demo_env demo_state ''refresh-1''))
            ''refresh-1'')
       = Inl (ValidationError (JList [JStr ''Token expired'']))
   \<and> fst (LogoutView_post demo_env (snd (LogoutView_post demo_env demo_state ''refresh-1''))
            ''refresh-1'')
       \<noteq> Inr logout_response"
  by (simp add: LogoutView_post_def LogoutSerializer_save_def RefreshToken_init_def
      blacklist_def fail_def default_error_messages_def validation_error_def
      demo_env_def demo_state_def)


section \<open>Properties of registration\<close>

lemma next_id_above:
  assumes "r \<in> set rows"
  shows "uid r < next_id rows"
proof -
  have "uid r \<le> foldr max (map uid rows) 0"
    using assms by (induction rows) auto
  then show ?thesis
    by (simp add: next_id_def)
qed

lemma next_id_new: "next_id rows \<notin> set (map uid rows)"
  using next_id_above [of _ rows] by fastforce

lemma save_new_then_update:
  assumes "uid u \<notin> set (map uid rows)" "uid u' = uid u"
  shows "save u' (save u rows) = rows @ [u']"
proof -
  from assms(1) have 1: "save u rows = rows @ [u]"
    by (simp add: save_def)
  have "\<And>r. r \<in> set rows \<Longrightarrow> uid r \<noteq> uid u"
    using assms(1) by (metis image_eqI list.set_map)
  then have "map (\<lambda>r. if uid r = uid u then u' else r) rows = rows"
    by (simp add: map_idI)
  with assms(2) have "save u' (rows @ [u]) = rows @ [u']"
    by (simp add: save_def)
  with 1 show ?thesis
    by simp
qed

lemma model_field_email_new:
  assumes "model_field_run_validation E None rows ''email'' data = Inr em"
  shows "objects_exists (\<lambda>u. email u = em) rows = False"
  using assms
  by (auto simp: model_field_run_validation_def unique_validator_hits_def Let_def
      validation_error_def split: option.splits sum.splits prod.splits if_splits)

lemma RegisterSerializer_to_internal_value_Inr:
  assumes "RegisterSerializer_to_internal_value E rows data = Inr attrs"
  shows "model_field_run_validation E None rows ''full_name'' (data ''full_name'') =
           Inr (reg_full_name attrs)
       \<and> model_field_run_validation E None rows ''email'' (data ''email'') =
           Inr (reg_email attrs)
       \<and> CharField_run_validation E (Some 40) (Some 4) False (data ''password1'') =
           Inr (password1 attrs)
       \<and> CharField_run_validation E (Some 40) (Some 4) False (data ''password2'') =
           Inr (password2 attrs)"
  using assms
  by (auto simp: RegisterSerializer_to_internal_value_def Let_def split: sum.splits)

lemma RegisterSerializer_email_new:
  assumes "RegisterSerializer_to_internal_value E rows data = Inr attrs"
  shows "objects_exists (\<lambda>u. email u = reg_email attrs) rows = False"
  using RegisterSerializer_to_internal_value_Inr [OF assms] model_field_email_new
  by blast

lemma RegisterView_post_taken_email:
  assumes "data ''email'' = Some raw" "column_clean E ''email'' raw = Inr (v, messages)"
    and "r \<in> set (users s)" "email r = v"
  shows "\<exists>d. RegisterView_post E now code s data = (Inl (ValidationError d), s)"
proof -
  from assms(3,4) have "r \<in> set (filter (\<lambda>u. email u = v \<and> True) (users s))"
    by simp
  then have "filter (\<lambda>u. email u = v \<and> True) (users s) \<noteq> []"
    by (metis empty_iff list.set(1))
  then have "unique_validator_hits None (users s) v"
    by (simp add: unique_validator_hits_def objects_exists_def)
  with assms(1,2) obtain d where
    refused: "model_field_run_validation E None (users s) ''email'' (data ''email'') =
      Inl (ValidationError d)"
    by (simp add: model_field_run_validation_def)
  have "\<exists>d'. RegisterSerializer_to_internal_value E (users s) data = Inl (ValidationError d')"
    unfolding RegisterSerializer_to_internal_value_def Let_def refused
    by (cases "model_field_run_validation E None (users s) ''full_name'' (data ''full_name'')")
      simp_all
  then obtain d' where
    "RegisterSerializer_to_internal_value E (users s) data = Inl (ValidationError d')" ..
  then have "RegisterView_post E now code s data = (Inl (ValidationError d'), s)"
    by (simp add: RegisterView_post_def)
  then show ?thesis ..
qed

lemma RegisterView_post_created:
  assumes checked: "RegisterSerializer_to_internal_value E (users s) data = Inr attrs"
    and equal: "password1 attrs = password2 attrs"
    and created: "create_user E (users s) (reg_full_name attrs) (reg_email attrs)
                    (password1 attrs) = Inr c"
  shows "RegisterView_post E now code s data =
     (case send_mail E False (otp_mail code (email c))
             (s\<lparr>users := users s @ [c\<lparr>otp := Some code, otp_created_at := Some now\<rparr>]\<rparr>) of
        (Inl e, s3) \<Rightarrow> (Inl e, s3)
      | (Inr n, s3) \<Rightarrow>
          (Inr (registered_response (c\<lparr>otp := Some code, otp_created_at := Some now\<rparr>)), s3))"
proof -
  let ?usr = "c\<lparr>otp := Some code, otp_created_at := Some now\<rparr>"
  from created have "uid c = next_id (users s)"
    by (auto simp: create_user_def split: if_splits)
  with next_id_new [of "users s"] have new: "uid c \<notin> set (map uid (users s))"
    by simp
  have rows: "save ?usr (save c (users s)) = users s @ [?usr]"
    by (rule save_new_then_update [OF new]) simp
  have valid: "is_valid_raise (RegisterSerializer_validate attrs) = Inr attrs"
    using equal by (simp add: RegisterSerializer_validate_def)
  show ?thesis
    unfolding RegisterView_post_def checked sum.case valid created
    using rows by (simp add: Let_def)
qed

lemma carol_request_checked:
  "RegisterSerializer_to_internal_value demo_env_mail_down (users demo_state) carol_request =
     Inr carol_attrs"
  by (simp add: RegisterSerializer_to_internal_value_def model_field_run_validation_def
      CharField_run_validation_def unique_validator_hits_def objects_exists_def
      carol_request_def carol_attrs_def demo_env_mail_down_def demo_env_def
      demo_state_def alice_def bob_def)

lemma carol_created:
  "create_user demo_env_mail_down (users demo_state) (reg_full_name carol_attrs)
     (reg_email carol_attrs) (password1 carol_attrs) =
   Inr (carol\<lparr>otp := None, otp_created_at := None\<rparr>)"
  by (simp add: create_user_def next_id_def objects_exists_def carol_attrs_def carol_def
      demo_env_mail_down_def demo_env_def demo_state_def alice_def bob_def)

text \<open>
  C9, as amended. Take a registration request that passes the checks of the fields
  (among them that no user has the email yet) and whose two passwords are equal, so
  that it validates and the user is created. When the mail server refuses the OTP
  mail, the exception of \<open>send_mail\<close> leaves \<open>RegisterView.post\<close>: the caller gets no
  registration response, and the exception is not one that the REST framework turns
  into an error response. The new user row, with its OTP and \<open>otp_created_at\<close>,
  unverified, is in the table nevertheless, after the rows that were there, and
  nothing else of the state has changed.
\<close>

theorem RegisterView_post_mail_failure:
  assumes checked: "RegisterSerializer_to_internal_value E (users s) data = Inr attrs"
    and equal: "password1 attrs = password2 attrs"
    and refused: "deliver E (otp_mail code (reg_email attrs)) = False"
  shows "\<exists>created.
           create_user E (users s) (reg_full_name attrs) (reg_email attrs) (password1 attrs) =
             Inr created
         \<and> email created = reg_email attrs \<and> full_name created = reg_full_name attrs
         \<and> password created = make_password E (password1 attrs)
         \<and> is_verified created = False
         \<and> RegisterView_post E now code s data =
             (Inl SMTPException,
              s\<lparr>users := users s @ [created\<lparr>otp := Some code, otp_created_at := Some now\<rparr>]\<rparr>)
         \<and> is_api_exception SMTPException = False"
proof -
  let ?created = "\<lparr>uid = next_id (users s), email = reg_email attrs,
      full_name = reg_full_name attrs, password = make_password E (password1 attrs),
      is_verified = False, is_active = True, otp = None, otp_created_at = None\<rparr>"
  have created: "create_user E (users s) (reg_full_name attrs) (reg_email attrs)
      (password1 attrs) = Inr ?created"
    using RegisterSerializer_email_new [OF checked] by (simp add: create_user_def)
  have "RegisterView_post E now code s data =
      (Inl SMTPException,
       s\<lparr>users := users s @ [?created\<lparr>otp := Some code, otp_created_at := Some now\<rparr>]\<rparr>)"
    using refused
    by (simp add: RegisterView_post_created [OF checked equal created] send_mail_def)
  with created show ?thesis
    by (intro exI [of _ ?created]) simp
qed


theorem RegisterView_post_mail_failure_witness:
  "RegisterView_post demo_env_mail_down 5000000 ''Q7W8E9'' demo_state carol_request =
     (Inl SMTPException, demo_state\<lparr>users := [alice, bob, carol]\<rparr>)"
proof -
  have equal: "password1 carol_attrs = password2 carol_attrs"
    by (simp add: carol_attrs_def)
  have refused: "deliver demo_env_mail_down (otp_mail ''Q7W8E9'' (reg_email carol_attrs)) = False"
    by (simp add: demo_env_mail_down_def)
  from RegisterView_post_mail_failure [OF carol_request_checked equal refused, of 5000000]
  obtain created where
    c: "create_user demo_env_mail_down (users demo_state) (reg_full_name carol_attrs)
          (reg_email carol_attrs) (password1 carol_attrs) = Inr created" and
    r: "RegisterView_post demo_env_mail_down 5000000 ''Q7W8E9'' demo_state carol_request =
          (Inl SMTPException,
           demo_state\<lparr>users := users demo_state @
              [created\<lparr>otp := Some ''Q7W8E9'', otp_created_at := Some 5000000\<rparr>]\<rparr>)"
    by blast
  from c carol_created have eq: "created = carol\<lparr>otp := None, otp_created_at := None\<rparr>"
    by simp
  have usr: "carol\<lparr>otp := Some ''Q7W8E9'', otp_created_at := Some 5000000\<rparr> = carol"
    by (simp add: carol_def)
  have rows: "users demo_state @ [carol] = [alice, bob, carol]"
    by (simp add: demo_state_def)
  show ?thesis
    unfolding r eq by (simp add: usr rows)
qed

text \<open>
  The claim C9 as it was stated fails: with the mail server down, Carol's registration
  ends in the exception and not in the registration response, although her row is in
  the table.
\<close>

theorem RegisterView_post_mail_failure_propagates:
  "fst (RegisterView_post demo_env_mail_down 5000000 ''Q7W8E9'' demo_state carol_request)
     = Inl SMTPException
   \<and> fst (RegisterView_post demo_env_mail_down 5000000 ''Q7W8E9'' demo_state carol_request)
     \<noteq> Inr (registered_response carol)
   \<and> users (snd (RegisterView_post demo_env_mail_down 5000000 ''Q7W8E9'' demo_state carol_request))
     = [alice, bob, carol]"
proof -
  have equal: "password1 carol_attrs = password2 carol_attrs"
    by (simp add: carol_attrs_def)
  have usr: "carol\<lparr>otp := Some ''Q7W8E9'', otp_created_at := Some 5000000\<rparr> = carol"
    by (simp add: carol_def)
  have rows: "users demo_state @ [carol] = [alice, bob, carol]"
    by (simp add: demo_state_def)
  have down: "deliver demo_env_mail_down m = False" for m
    by (simp add: demo_env_mail_down_def)
  have "RegisterView_post demo_env_mail_down 5000000 ''Q7W8E9'' demo_state carol_request =
      (Inl SMTPException, demo_state\<lparr>users := [alice, bob, carol]\<rparr>)"
    unfolding RegisterView_post_created [OF carol_request_checked equal carol_created]
    by (simp add: send_mail_def down usr rows)
  then show ?thesis
    by simp
qed

section \<open>Properties of the password reset\<close>

lemma ConfirmPasswordResetView_get_state:
  "snd (ConfirmPasswordResetView_get E s uidb64 token) = s"
  by (simp add: ConfirmPasswordResetView_get_def split: option.splits sum.splits)

lemma ConfirmPasswordResetView_get_bad_token:
  assumes "urlsafe_base64_decode E uidb64 = Some raw" "decode_utf8 E raw = Some user_id"
    and "objects_get_id E user_id (users s) = Inr u" "check_token E u token = False"
  shows "ConfirmPasswordResetView_get E s uidb64 token = (Inr token_expired_response, s)"
  using assms by (simp add: ConfirmPasswordResetView_get_def)

lemma ConfirmPasswordResetView_get_bad_encoding:
  assumes "urlsafe_base64_decode E uidb64 = Some raw" "decode_utf8 E raw = None"
  shows "ConfirmPasswordResetView_get E s uidb64 token = (Inr token_has_expired_response, s)"
  using assms by (simp add: ConfirmPasswordResetView_get_def)

lemma ConfirmPasswordResetView_get_bad_base64:
  assumes "urlsafe_base64_decode E uidb64 = None"
  shows "ConfirmPasswordResetView_get E s uidb64 token = (Inl ValueError, s)"
  using assms by (simp add: ConfirmPasswordResetView_get_def)

lemma ConfirmPasswordResetView_get_no_user:
  assumes "urlsafe_base64_decode E uidb64 = Some raw" "decode_utf8 E raw = Some user_id"
    and "to_python_int E user_id = Some i" "objects_exists (\<lambda>u. uid u = i) (users s) = False"
  shows "ConfirmPasswordResetView_get E s uidb64 token = (Inl DoesNotExist, s)"
  using assms objects_get_missing [OF assms(4)]
  by (simp add: ConfirmPasswordResetView_get_def objects_get_id_def)

lemma NewPasswordSerializer_try_failure:
  assumes "fst (NewPasswordSerializer_try E s attrs) = Inl e"
  shows "snd (NewPasswordSerializer_try E s attrs) = s"
  using assms
  by (auto simp: NewPasswordSerializer_try_def Let_def split: option.splits sum.splits if_splits)

lemma NewPasswordSerializer_validate_returns:
  "\<exists>v. fst (NewPasswordSerializer_validate E s attrs) = Inr v"
  by (cases "NewPasswordSerializer_try E s attrs")
    (auto simp: NewPasswordSerializer_validate_def split: sum.splits)

lemma NewPasswordView_patch_acknowledges:
  "fst (NewPasswordView_patch E s attrs) = Inr password_reset_response"
proof -
  obtain r s' where v: "NewPasswordSerializer_validate E s attrs = (r, s')"
    by (cases "NewPasswordSerializer_validate E s attrs")
  with NewPasswordSerializer_validate_returns [of E s attrs] obtain w where "r = Inr w"
    by auto
  with v show ?thesis
    by (simp add: NewPasswordView_patch_def)
qed

lemma NewPasswordView_patch_stale:
  assumes "urlsafe_base64_decode E (np_uidb64 attrs) = Some raw" "decode_utf8 E raw = Some user_id"
    and "objects_get_id E user_id (users s) = Inr u" "check_token E u (np_token attrs) = False"
  shows "NewPasswordView_patch E s attrs = (Inr password_reset_response, s)"
  using assms
  by (simp add: NewPasswordView_patch_def NewPasswordSerializer_validate_def
      NewPasswordSerializer_try_def)

lemma NewPasswordView_patch_mismatch:
  assumes "urlsafe_base64_decode E (np_uidb64 attrs) = Some raw" "decode_utf8 E raw = Some user_id"
    and "objects_get_id E user_id (users s) = Inr u" "check_token E u (np_token attrs)"
    and "np_password attrs \<noteq> np_password_confirm attrs"
  shows "NewPasswordView_patch E s attrs = (Inr password_reset_response, s)"
  using assms
  by (simp add: NewPasswordView_patch_def NewPasswordSerializer_validate_def
      NewPasswordSerializer_try_def)

lemma NewPasswordView_patch_stores:
  assumes "urlsafe_base64_decode E (np_uidb64 attrs) = Some raw" "decode_utf8 E raw = Some user_id"
    and "objects_get_id E user_id (users s) = Inr u" "check_token E u (np_token attrs)"
    and "np_password attrs = np_password_confirm attrs"
  shows "NewPasswordView_patch E s attrs =
           (Inr password_reset_response,
            s\<lparr>users := save (u\<lparr>password := make_password E (np_password attrs)\<rparr>) (users s)\<rparr>)"
  using assms
  by (simp add: NewPasswordView_patch_def NewPasswordSerializer_validate_def
      NewPasswordSerializer_try_def Let_def)

text \<open>
  C1. The token \<open>tok-hash-oldpass\<close> is the one issued for Alice while her stored hash
  is \<open>hash-oldpass\<close>. A first reset with it stores the hash of \<open>newpass1\<close>; after that
  the token no longer verifies against her row. A second reset with the same token
  leaves the stored password alone, as the claim says, but the request is answered
  with the success response \<open>Your Password Reset Successfully\<close>, where the claim says
  that it does not report success.
\<close>

theorem NewPasswordView_patch_stale_token_reports_success:
  "make_token demo_env alice = np_token reset_attrs2
   \<and> NewPasswordView_patch demo_env demo_state reset_attrs1 =
       (Inr password_reset_response, state_after_reset)
   \<and> users state_after_reset = [alice\<lparr>password := make_password demo_env ''newpass1''\<rparr>, bob]
   \<and> check_token demo_env (alice\<lparr>password := make_password demo_env ''newpass1''\<rparr>)
        (np_token reset_attrs2) = False
   \<and> NewPasswordSerializer_validate demo_env state_after_reset reset_attrs2 =
       (Inr (ReturnedException (AuthenticationFailed ''The link is invalid/expired'')),
        state_after_reset)
   \<and> NewPasswordView_patch demo_env state_after_reset reset_attrs2 =
       (Inr password_reset_response, state_after_reset)
   \<and> password_reset_response =
       Response (JDict [(''message'', JStr ''Your Password Reset Successfully'')]) 200"
  by (simp add: NewPasswordView_patch_def NewPasswordSerializer_validate_def
      NewPasswordSerializer_try_def objects_get_id_def objects_get_def save_def Let_def
      demo_env_def demo_state_def state_after_reset_def reset_attrs1_def reset_attrs2_def
      alice_def bob_def password_reset_response_def)

text \<open>
  C2. A reset for Alice with her valid token and two different passwords: the
  exception for the mismatch is raised inside the \<open>try\<close> block, caught by its
  \<open>except\<close> clause and replaced by an exception object that \<open>validate\<close> returns. The
  password is not changed, as the claim says, but the view answers with the success
  response, where the claim says that no success acknowledgment is returned. With
  equal passwords the hash of the new password is stored, as the claim says.
\<close>

theorem NewPasswordView_patch_mismatch_reports_success:
  "check_token demo_env alice (np_token reset_attrs_mismatch)
   \<and> np_password reset_attrs_mismatch \<noteq> np_password_confirm reset_attrs_mismatch
   \<and> fst (NewPasswordSerializer_try demo_env demo_state reset_attrs_mismatch) =
       Inl (AuthenticationFailed ''Password Fields didn't match!'')
   \<and> NewPasswordSerializer_validate demo_env demo_state reset_attrs_mismatch =
       (Inr (ReturnedException (AuthenticationFailed ''The link is invalid/expired'')), demo_state)
   \<and> NewPasswordView_patch demo_env demo_state reset_attrs_mismatch =
       (Inr password_reset_response, demo_state)
   \<and> password_reset_response =
       Response (JDict [(''message'', JStr ''Your Password Reset Successfully'')]) 200
   \<and> users (snd (NewPasswordView_patch demo_env demo_state reset_attrs1)) =
       [alice\<lparr>password := make_password demo_env ''newpass1''\<rparr>, bob]"
  by (simp add: NewPasswordView_patch_def NewPasswordSerializer_validate_def
      NewPasswordSerializer_try_def objects_get_id_def objects_get_def save_def Let_def
      demo_env_def demo_state_def reset_attrs_mismatch_def reset_attrs1_def
      alice_def bob_def password_reset_response_def)

text \<open>
  C3. The link \<open>OTk5\<close> decodes to the identifier 999, which no user has: the
  \<open>DoesNotExist\<close> of the lookup is not caught and leaves the view, and it is not an
  exception that the REST framework turns into an error response. The same holds for
  the \<open>ValueError\<close> of a string that is not base64. The claim says that both cases end
  in a handled invalid-link error. A token that does not verify is answered with
  status 401, and the state is never changed, as the claim says.
\<close>

theorem ConfirmPasswordResetView_get_unhandled:
  "ConfirmPasswordResetView_get demo_env demo_state ''OTk5'' ''tok-hash-oldpass'' =
     (Inl DoesNotExist, demo_state)
   \<and> is_api_exception DoesNotExist = False
   \<and> ConfirmPasswordResetView_get demo_env demo_state ''a'' ''tok-hash-oldpass'' =
     (Inl ValueError, demo_state)
   \<and> is_api_exception ValueError = False
   \<and> ConfirmPasswordResetView_get demo_env demo_state ''MQ'' ''tok-hash-stale'' =
     (Inr (Response (JDict [(''message'', JStr ''Token is expired'')]) 401), demo_state)
   \<and> ConfirmPasswordResetView_get demo_env demo_state ''MQ'' ''tok-hash-oldpass'' =
     (Inr (credentials_valid_response ''MQ'' ''tok-hash-oldpass''), demo_state)"
  by (simp add: ConfirmPasswordResetView_get_def objects_get_id_def objects_get_def
      token_expired_response_def demo_env_def demo_state_def alice_def bob_def)

end
